theory Spec2Isabelle
  imports Main "HOL-Library.Word"
begin

section \<open>The Raft peer of \<^verbatim>\<open>raft.go\<close>: data\<close>

text \<open>
  The development embeds \<^verbatim>\<open>src/P3/src/github.com/cmu440/raft/raft.go\<close>, one HOL
  definition per Go function, each a function of the peer's fields that returns the
  fields as the function leaves them.

  Go's \<^verbatim>\<open>int\<close> is a 64-bit two's complement integer: \<open>+\<close> wraps around, and the
  comparisons \<^verbatim>\<open><\<close> and \<^verbatim>\<open>>\<close> are the signed ones, \<open><s\<close> and \<open>\<le>s\<close> on words.
\<close>

type_synonym go_int = "64 word"

text \<open>The roles, \<^verbatim>\<open>const ( FOLLOWER int = iota; CANDIDATE; LEADER )\<close>.\<close>

definition FOLLOWER :: go_int where
  "FOLLOWER = 0"

definition CANDIDATE :: go_int where
  "CANDIDATE = 1"

definition LEADER :: go_int where
  "LEADER = 2"

text \<open>
  \<^verbatim>\<open>type LogEntry struct { index int; term int; value string }\<close>. The field names of
  the Go structs repeat (\<^verbatim>\<open>term\<close> is a field of five of them), so every record
  prefixes its fields: \<open>le_\<close> for a log entry, \<open>rva_\<close> and \<open>rvr_\<close> for the arguments
  and the reply of RequestVote, \<open>aea_\<close> and \<open>aer_\<close> for those of AppendEntries.
\<close>

record LogEntry =
  le_index :: go_int
  le_term :: go_int
  le_value :: string

record RequestVoteArgs =
  rva_term :: go_int
  rva_candidateId :: go_int
  rva_lastLogIndex :: go_int
  rva_lastLogTerm :: go_int

record AppendEntriesArgs =
  aea_term :: go_int
  aea_leaderId :: go_int
  aea_prevLogIndex :: go_int
  aea_prevLogTerm :: go_int
  aea_entries :: "LogEntry list"
  aea_leaderCommit :: go_int

record RequestVoteReply =
  rvr_term :: go_int
  rvr_vote :: bool

record AppendEntriesReply =
  aer_term :: go_int
  aer_success :: bool

text \<open>
  A \<^verbatim>\<open>*labrpc.ClientEnd\<close> is known by its identity only. A channel value is \<^verbatim>\<open>nil\<close>
  (the zero value, which is what \<^verbatim>\<open>Make\<close> leaves in every channel field but
  \<^verbatim>\<open>applych\<close>) or a channel that \<^verbatim>\<open>make\<close> created.
\<close>

datatype ClientEnd = ClientEnd nat

datatype chan = NilChan | MadeChan nat

text \<open>
  \<^verbatim>\<open>type Raft struct\<close>, field by field. \<open>mu\<close> is the \<^verbatim>\<open>sync.Mutex\<close>: \<open>True\<close> when
  it is locked.
\<close>

record Raft =
  mu :: bool
  peers :: "ClientEnd list"
  me :: go_int
  currentTerm :: go_int
  votedFor :: go_int
  logs :: "LogEntry list"
  committedIndex :: go_int
  lastApplied :: go_int
  nextIndex :: "go_int list"
  matchIndex :: "go_int list"
  applych :: chan
  state :: go_int
  voteCount :: go_int
  heartBeatCh :: chan
  voteReceivedCh :: chan
  winElecCh :: chan

section \<open>Effects and outcomes\<close>

text \<open>
  What a function does beyond updating the peer's fields is listed in the order it
  happens: a value sent on a channel, a goroutine started with \<^verbatim>\<open>go\<close>, a remote call
  issued through \<^verbatim>\<open>rf.peers[server].Call\<close>.
\<close>

datatype effect =
    Send_heartBeatCh bool
  | Send_winElecCh bool
  | Go_run
  | Go_broadcastAppendEntries
  | Go_broadcastRequestVote
  | Go_sendRequestVote go_int RequestVoteArgs
  | Call_RequestVote go_int RequestVoteArgs
  | Call_AppendEntries go_int AppendEntriesArgs

text \<open>
  A call ends in one of three ways. It returns, with the peer's fields, the effects and
  the result. It panics (an index out of range), with the fields as the panic leaves
  them once the deferred calls have run. Or it blocks: it is suspended at a \<^verbatim>\<open>Lock\<close>
  of a mutex that is held, or at a channel operation that no goroutine completes, with
  the fields as they are at that statement; no statement after it has run.
\<close>

datatype 'a outcome =
    Returns Raft "effect list" 'a
  | Panics Raft
  | Blocks Raft

primrec final :: "'a outcome \<Rightarrow> Raft" where
  "final (Returns rf es r) = rf"
| "final (Panics rf) = rf"
| "final (Blocks rf) = rf"

text \<open>
  \<^verbatim>\<open>rf.mu.Lock()\<close> takes the mutex when it is free and has no value when it is held:
  the caller is suspended. \<^verbatim>\<open>sync.Mutex\<close> is not reentrant, so this is also what a
  second \<^verbatim>\<open>Lock\<close> by the goroutine that holds the mutex does. \<^verbatim>\<open>rf.mu.Unlock()\<close>
  releases it; every \<^verbatim>\<open>Unlock\<close> of the file follows a \<^verbatim>\<open>Lock\<close> of the same function.
\<close>

definition Lock :: "Raft \<Rightarrow> Raft option" where
  "Lock rf = (if mu rf then None else Some (rf\<lparr>mu := True\<rparr>))"

definition Unlock :: "Raft \<Rightarrow> Raft" where
  "Unlock rf = rf\<lparr>mu := False\<rparr>"

section \<open>The functions of \<^verbatim>\<open>raft.go\<close>\<close>

text \<open>\<^verbatim>\<open>GetState\<close> (lines 92-101) reads two fields and takes no lock.\<close>

definition GetState :: "Raft \<Rightarrow> (go_int \<times> bool) outcome" where
  "GetState rf = Returns rf [] (currentTerm rf, state rf = LEADER)"

text \<open>
  \<^verbatim>\<open>RequestVote\<close> (lines 148-163). The handler locks, defers the unlock, and fills the
  reply in one of three branches. The second condition reads
  \<^verbatim>\<open>rf.logs[len(rf.logs)-1]\<close>, which panics on an empty log; the deferred
  \<^verbatim>\<open>Unlock\<close> runs while the panic unwinds.
\<close>

definition RequestVote :: "Raft \<Rightarrow> RequestVoteArgs \<Rightarrow> RequestVoteReply \<Rightarrow> RequestVoteReply outcome" where
  "RequestVote rf args reply =
     (case Lock rf of
        None \<Rightarrow> Blocks rf
      | Some rf1 \<Rightarrow>
          if rva_term args <s currentTerm rf1 then
            Returns (Unlock rf1) [] (reply\<lparr>rvr_term := currentTerm rf1, rvr_vote := False\<rparr>)
          else if logs rf1 = [] then
            Panics (Unlock rf1)
          else if rva_lastLogIndex args <s le_index (last (logs rf1)) then
            Returns (Unlock rf1) [] (reply\<lparr>rvr_term := currentTerm rf1, rvr_vote := False\<rparr>)
          else
            Returns (Unlock rf1) [] (reply\<lparr>rvr_term := currentTerm rf1, rvr_vote := True\<rparr>))"

text \<open>
  \<^verbatim>\<open>AppendEntries\<close> (lines 168-173). The whole body is \<^verbatim>\<open>rf.heartBeatCh <- true\<close>:
  it takes no lock, reads no argument and writes neither a field nor the reply. A send
  on a nil channel never completes; a send on a made channel completes when the value
  is taken (\<open>taken\<close>: a goroutine receives it, or the channel has buffer space).
\<close>

definition AppendEntries :: "Raft \<Rightarrow> AppendEntriesArgs \<Rightarrow> AppendEntriesReply \<Rightarrow> bool \<Rightarrow> AppendEntriesReply outcome" where
  "AppendEntries rf args reply taken =
     (if heartBeatCh rf = NilChan then Blocks rf
      else if taken then Returns rf [Send_heartBeatCh True] reply
      else Blocks rf)"

text \<open>
  \<^verbatim>\<open>rf.peers[server]\<close> panics when \<open>server\<close> is not an index of \<^verbatim>\<open>rf.peers\<close>.
\<close>

definition peer_index :: "Raft \<Rightarrow> go_int \<Rightarrow> bool" where
  "peer_index rf server = (0 <=s server \<and> nat (sint server) < length (peers rf))"

text \<open>
  \<^verbatim>\<open>sendRequestVote\<close> (lines 204-209). \<open>call\<close> is what \<^verbatim>\<open>Call\<close> does: \<open>None\<close> when it
  returns false and leaves the reply alone, \<open>Some r\<close> when it returns true with the
  reply \<open>r\<close> of the remote handler. The function then locks the mutex, never unlocks
  it, and sends \<^verbatim>\<open>reply.vote\<close> on \<^verbatim>\<open>winElecCh\<close>, whatever the vote is and whether or
  not the call succeeded.
\<close>

definition sendRequestVote :: "Raft \<Rightarrow> go_int \<Rightarrow> RequestVoteArgs \<Rightarrow> RequestVoteReply \<Rightarrow> RequestVoteReply option \<Rightarrow> bool \<Rightarrow> (bool \<times> RequestVoteReply) outcome" where
  "sendRequestVote rf server args reply call taken =
     (if peer_index rf server then
        (let ok = (call \<noteq> None);
             reply1 = (case call of None \<Rightarrow> reply | Some r \<Rightarrow> r)
         in case Lock rf of
              None \<Rightarrow> Blocks rf
            | Some rf1 \<Rightarrow>
                if winElecCh rf1 = NilChan then Blocks rf1
                else if taken then
                  Returns rf1 [Call_RequestVote server args, Send_winElecCh (rvr_vote reply1)] (ok, reply1)
                else Blocks rf1)
      else Panics rf)"

text \<open>\<^verbatim>\<open>sendAppendEntries\<close> (lines 211-214) issues the call and returns its result.\<close>

definition sendAppendEntries :: "Raft \<Rightarrow> go_int \<Rightarrow> AppendEntriesArgs \<Rightarrow> AppendEntriesReply \<Rightarrow> AppendEntriesReply option \<Rightarrow> (bool \<times> AppendEntriesReply) outcome" where
  "sendAppendEntries rf server args reply call =
     (if peer_index rf server then
        Returns rf [Call_AppendEntries server args]
          (call \<noteq> None, case call of None \<Rightarrow> reply | Some r \<Rightarrow> r)
      else Panics rf)"

text \<open>
  \<^verbatim>\<open>broadcastRequestVote\<close> (lines 219-234). The arguments start as the zero value
  \<^verbatim>\<open>RequestVoteArgs{}\<close>; lines 225 and 226 both assign \<^verbatim>\<open>arg.lastLogIndex\<close>, first the
  last entry's index and then its term, and nothing assigns \<^verbatim>\<open>arg.lastLogTerm\<close>. The
  loop \<^verbatim>\<open>for index := range rf.peers\<close> starts one goroutine for every index of
  \<^verbatim>\<open>rf.peers\<close>, this peer's own included.
\<close>

definition broadcastRequestVote :: "Raft \<Rightarrow> unit outcome" where
  "broadcastRequestVote rf =
     (case Lock rf of
        None \<Rightarrow> Blocks rf
      | Some rf1 \<Rightarrow>
          if logs rf1 = [] then Panics (Unlock rf1)
          else
            (let arg0 = \<lparr>rva_term = 0, rva_candidateId = 0, rva_lastLogIndex = 0, rva_lastLogTerm = 0\<rparr>;
                 arg1 = arg0\<lparr>rva_term := currentTerm rf1\<rparr>;
                 arg2 = arg1\<lparr>rva_candidateId := me rf1\<rparr>;
                 arg3 = arg2\<lparr>rva_lastLogIndex := le_index (last (logs rf1))\<rparr>;
                 arg = arg3\<lparr>rva_lastLogIndex := le_term (last (logs rf1))\<rparr>
             in Returns (Unlock rf1)
                  (map (\<lambda>index. Go_sendRequestVote (of_nat index) arg) [0..<length (peers rf1)])
                  ()))"

text \<open>
  \<^verbatim>\<open>broadcastAppendEntries\<close> (lines 240-252). The arguments are the zero value
  \<^verbatim>\<open>AppendEntriesArgs{}\<close>; the loop skips \<^verbatim>\<open>rf.me\<close> and calls every other peer in
  turn, dropping each result.
\<close>

definition broadcastAppendEntries :: "Raft \<Rightarrow> unit outcome" where
  "broadcastAppendEntries rf =
     (case Lock rf of
        None \<Rightarrow> Blocks rf
      | Some rf1 \<Rightarrow>
          (let arg = \<lparr>aea_term = 0, aea_leaderId = 0, aea_prevLogIndex = 0, aea_prevLogTerm = 0,
                       aea_entries = [], aea_leaderCommit = 0\<rparr>
           in Returns (Unlock rf1)
                (map (\<lambda>i. Call_AppendEntries (of_nat i) arg)
                   (filter (\<lambda>i. of_nat i \<noteq> me rf1) [0..<length (peers rf1)]))
                ()))"

text \<open>
  \<^verbatim>\<open>Start\<close> (lines 267-276) is the three initialisations and the \<^verbatim>\<open>return\<close>: it reads
  neither the command nor the peer.
\<close>

definition Start :: "Raft \<Rightarrow> 'c \<Rightarrow> (go_int \<times> go_int \<times> bool) outcome" where
  "Start rf command = Returns rf [] (- 1, - 1, True)"

text \<open>\<^verbatim>\<open>Kill\<close> (lines 284-286) has an empty body.\<close>

definition Kill :: "Raft \<Rightarrow> unit outcome" where
  "Kill rf = Returns rf [] ()"

text \<open>
  \<^verbatim>\<open>Make\<close> (lines 297-307) allocates \<^verbatim>\<open>&Raft{}\<close>, assigns four fields and starts
  \<^verbatim>\<open>run\<close>. Every other field keeps Go's zero value: 0, the nil slice, the nil channel,
  the unlocked mutex. In particular the log is empty.
\<close>

definition Make :: "ClientEnd list \<Rightarrow> go_int \<Rightarrow> chan \<Rightarrow> Raft \<times> effect list" where
  "Make ps m applyCh =
     (\<lparr>mu = False, peers = ps, me = m, currentTerm = 0, votedFor = 0, logs = [],
       committedIndex = 0, lastApplied = 0, nextIndex = [], matchIndex = [],
       applych = applyCh, state = FOLLOWER, voteCount = 0, heartBeatCh = NilChan,
       voteReceivedCh = NilChan, winElecCh = NilChan\<rparr>,
      [Go_run])"

text \<open>
  \<^verbatim>\<open>run\<close> (lines 309-343) waits in a \<^verbatim>\<open>select\<close>. The \<open>event\<close> is the communication
  that the \<^verbatim>\<open>select\<close> completes. The timer cases are written
  \<^verbatim>\<open>case time.After(...):\<close> and are read as the receive \<^verbatim>\<open>case <-time.After(...):\<close>;
  a timer always fires, a receive from a nil channel never completes, so an event on a
  nil channel leaves the timer.
\<close>

datatype event = Recv_heartBeatCh bool | Recv_winElecCh bool | TimerFired

definition select_CANDIDATE :: "Raft \<Rightarrow> event \<Rightarrow> event" where
  "select_CANDIDATE rf ev =
     (case ev of
        Recv_heartBeatCh b \<Rightarrow> if heartBeatCh rf = NilChan then TimerFired else ev
      | Recv_winElecCh b \<Rightarrow> if winElecCh rf = NilChan then TimerFired else ev
      | TimerFired \<Rightarrow> TimerFired)"

text \<open>
  The arm \<^verbatim>\<open>case CANDIDATE:\<close> (lines 316-336), from its first statement, the
  \<^verbatim>\<open>rf.mu.Lock()\<close> of line 317.
\<close>

definition run_CANDIDATE :: "Raft \<Rightarrow> event \<Rightarrow> unit outcome" where
  "run_CANDIDATE rf ev =
     (case Lock rf of
        None \<Rightarrow> Blocks rf
      | Some rf1 \<Rightarrow>
          (let rf2 = Unlock (rf1\<lparr>currentTerm := currentTerm rf1 + 1\<rparr>)
           in case select_CANDIDATE rf2 ev of
                Recv_heartBeatCh b \<Rightarrow>
                  (case Lock rf2 of
                     None \<Rightarrow> Blocks rf2
                   | Some rf3 \<Rightarrow>
                       Returns (Unlock (rf3\<lparr>state := FOLLOWER\<rparr>)) [Go_broadcastRequestVote] ())
              | Recv_winElecCh b \<Rightarrow>
                  (case Lock rf2 of
                     None \<Rightarrow> Blocks rf2
                   | Some rf3 \<Rightarrow>
                       Returns (Unlock (rf3\<lparr>state := LEADER, voteCount := 0, votedFor := - 1\<rparr>))
                         [Go_broadcastRequestVote] ())
              | TimerFired \<Rightarrow>
                  Returns rf2 [Go_broadcastRequestVote, Go_broadcastRequestVote] ()))"

text \<open>
  \<^verbatim>\<open>run\<close> itself: the \<^verbatim>\<open>rf.mu.Lock()\<close> of line 310, which no statement of \<^verbatim>\<open>run\<close>
  undoes, and the \<^verbatim>\<open>switch\<close> on the role. A role that is none of the three constants
  matches no case. \<^verbatim>\<open>Make\<close> calls \<^verbatim>\<open>run\<close> once; the function has no loop.
\<close>

definition run :: "Raft \<Rightarrow> event \<Rightarrow> unit outcome" where
  "run rf ev =
     (case Lock rf of
        None \<Rightarrow> Blocks rf
      | Some rf1 \<Rightarrow>
          (let currentState = state rf1
           in if currentState = LEADER then Returns rf1 [Go_broadcastAppendEntries] ()
              else if currentState = CANDIDATE then run_CANDIDATE rf1 ev
              else if currentState = FOLLOWER then Returns (rf1\<lparr>state := CANDIDATE\<rparr>) [] ()
              else Returns rf1 [] ()))"

section \<open>Operations, observations and example inputs\<close>

text \<open>
  The operations of a peer: one constructor for each function of the file that works on
  an existing peer, with the function's arguments. \<open>perform\<close> runs the operation and
  gives the peer's fields as the operation leaves them, whether it returns, panics or
  blocks; \<open>result_of\<close> is what a call returns, if it returns.
\<close>

datatype 'c operation =
    Op_GetState
  | Op_RequestVote RequestVoteArgs RequestVoteReply
  | Op_AppendEntries AppendEntriesArgs AppendEntriesReply bool
  | Op_sendRequestVote go_int RequestVoteArgs RequestVoteReply "RequestVoteReply option" bool
  | Op_sendAppendEntries go_int AppendEntriesArgs AppendEntriesReply "AppendEntriesReply option"
  | Op_broadcastRequestVote
  | Op_broadcastAppendEntries
  | Op_Start 'c
  | Op_Kill
  | Op_run event

primrec perform :: "Raft \<Rightarrow> 'c operation \<Rightarrow> Raft" where
  "perform rf Op_GetState = final (GetState rf)"
| "perform rf (Op_RequestVote args reply) = final (RequestVote rf args reply)"
| "perform rf (Op_AppendEntries args reply taken) = final (AppendEntries rf args reply taken)"
| "perform rf (Op_sendRequestVote server args reply call taken) =
     final (sendRequestVote rf server args reply call taken)"
| "perform rf (Op_sendAppendEntries server args reply call) =
     final (sendAppendEntries rf server args reply call)"
| "perform rf Op_broadcastRequestVote = final (broadcastRequestVote rf)"
| "perform rf Op_broadcastAppendEntries = final (broadcastAppendEntries rf)"
| "perform rf (Op_Start command) = final (Start rf command)"
| "perform rf Op_Kill = final (Kill rf)"
| "perform rf (Op_run ev) = final (run rf ev)"

primrec result_of :: "'a outcome \<Rightarrow> 'a option" where
  "result_of (Returns rf es r) = Some r"
| "result_of (Panics rf) = None"
| "result_of (Blocks rf) = None"

text \<open>
  The vote-granting rule in the words of the specification (section 4.2, rule 3), to
  compare \<open>RequestVote\<close> with: \<open>votedFor\<close> is none (\<open>- 1\<close>, the value line 331 stores) or
  the candidate, and the candidate's pair of last term and last index is
  lexicographically at least the voter's.
\<close>

definition spec_vote_rule :: "Raft \<Rightarrow> RequestVoteArgs \<Rightarrow> bool" where
  "spec_vote_rule rf args =
     ((votedFor rf = - 1 \<or> votedFor rf = rva_candidateId args) \<and>
      (le_term (last (logs rf)) <s rva_lastLogTerm args \<or>
       (le_term (last (logs rf)) = rva_lastLogTerm args \<and>
        le_index (last (logs rf)) <=s rva_lastLogIndex args)))"

text \<open>
  The consistency check in the words of the specification (section 4.3, step 2): the
  log contains an entry at the index \<open>i\<close> whose term is \<open>t\<close>.
\<close>

definition log_contains :: "LogEntry list \<Rightarrow> go_int \<Rightarrow> go_int \<Rightarrow> bool" where
  "log_contains lg i t = list_ex (\<lambda>e. le_index e = i \<and> le_term e = t) lg"

text \<open>
  A peer to evaluate the functions on: peer 0 of three, a follower in term 1 with one
  log entry, its mutex free and its channels made. \<open>votedFor\<close> is 2.
\<close>

definition example_peer :: Raft where
  "example_peer =
     \<lparr>mu = False, peers = [ClientEnd 0, ClientEnd 1, ClientEnd 2], me = 0, currentTerm = 1,
       votedFor = 2, logs = [\<lparr>le_index = 1, le_term = 1, le_value = ''a''\<rparr>],
       committedIndex = 0, lastApplied = 0, nextIndex = [], matchIndex = [],
       applych = MadeChan 0, state = FOLLOWER, voteCount = 0, heartBeatCh = MadeChan 1,
       voteReceivedCh = MadeChan 2, winElecCh = MadeChan 3\<rparr>"

section \<open>Basic facts\<close>

lemma roles_distinct:
  "FOLLOWER \<noteq> CANDIDATE" "FOLLOWER \<noteq> LEADER" "CANDIDATE \<noteq> LEADER"
  by (simp_all add: FOLLOWER_def CANDIDATE_def LEADER_def)

lemma unlock_free: "\<not> mu rf \<Longrightarrow> rf\<lparr>mu := False\<rparr> = rf"
  by (cases rf) simp

lemma Unlock_Lock: "Lock rf = Some rf1 \<Longrightarrow> Unlock rf1 = rf"
  by (auto simp: Lock_def Unlock_def unlock_free split: if_splits)

text \<open>A handler that returns has released the mutex, and neither handler writes a field.\<close>

lemma RequestVote_final: "final (RequestVote rf args reply) = rf"
  by (auto simp: RequestVote_def Unlock_Lock split: option.splits)

lemma AppendEntries_final: "final (AppendEntries rf args reply taken) = rf"
  by (simp add: AppendEntries_def)

lemma AppendEntries_result:
  "AppendEntries rf args reply taken =
     (if heartBeatCh rf \<noteq> NilChan \<and> taken then Returns rf [Send_heartBeatCh True] reply
      else Blocks rf)"
  by (simp add: AppendEntries_def)

text \<open>
  \<^verbatim>\<open>run\<close> holds the mutex from line 310 on, so the \<^verbatim>\<open>Lock\<close> of line 317 finds it held:
  on a candidate, \<^verbatim>\<open>run\<close> stops there, before the term is incremented and before the
  \<^verbatim>\<open>select\<close>.
\<close>

lemma run_CANDIDATE_held: "mu rf \<Longrightarrow> run_CANDIDATE rf ev = Blocks rf"
  by (simp add: run_CANDIDATE_def Lock_def)

lemma run_of_CANDIDATE:
  "state rf = CANDIDATE \<Longrightarrow> run rf ev = Blocks (if mu rf then rf else rf\<lparr>mu := True\<rparr>)"
  by (simp add: run_def Lock_def run_CANDIDATE_held roles_distinct)

text \<open>
  No function writes \<^verbatim>\<open>committedIndex\<close> or \<^verbatim>\<open>lastApplied\<close>; a candidate stays a
  candidate; and a held mutex stays held, since every \<^verbatim>\<open>Unlock\<close> comes after a \<^verbatim>\<open>Lock\<close>
  of the same function.
\<close>

lemma perform_committedIndex: "committedIndex (perform rf op) = committedIndex rf"
  by (cases op)
    (auto simp: GetState_def RequestVote_final AppendEntries_final sendRequestVote_def
      sendAppendEntries_def broadcastRequestVote_def broadcastAppendEntries_def Start_def
      Kill_def run_def run_CANDIDATE_def Lock_def Unlock_def Let_def select_CANDIDATE_def
      split: option.splits event.splits)

lemma perform_lastApplied: "lastApplied (perform rf op) = lastApplied rf"
  by (cases op)
    (auto simp: GetState_def RequestVote_final AppendEntries_final sendRequestVote_def
      sendAppendEntries_def broadcastRequestVote_def broadcastAppendEntries_def Start_def
      Kill_def run_def run_CANDIDATE_def Lock_def Unlock_def Let_def select_CANDIDATE_def
      split: option.splits event.splits)

lemma perform_CANDIDATE: "state rf = CANDIDATE \<Longrightarrow> state (perform rf op) = CANDIDATE"
  by (cases op)
    (auto simp: GetState_def RequestVote_final AppendEntries_final sendRequestVote_def
      sendAppendEntries_def broadcastRequestVote_def broadcastAppendEntries_def Start_def
      Kill_def run_of_CANDIDATE Lock_def Unlock_def Let_def
      split: option.splits)

lemma perform_mu: "mu rf \<Longrightarrow> mu (perform rf op)"
  by (cases op)
    (auto simp: GetState_def RequestVote_final AppendEntries_final sendRequestVote_def
      sendAppendEntries_def broadcastRequestVote_def broadcastAppendEntries_def Start_def
      Kill_def run_def Lock_def)

lemma foldl_perform_CANDIDATE:
  "state rf = CANDIDATE \<Longrightarrow> state (foldl perform rf ops) = CANDIDATE"
  by (induction ops arbitrary: rf) (simp_all add: perform_CANDIDATE)

lemma foldl_perform_mu: "mu rf \<Longrightarrow> mu (foldl perform rf ops)"
  by (induction ops arbitrary: rf) (simp_all add: perform_mu)

lemmas signed_compare = word_sless_alt word_sle_eq

section \<open>The commit index and the applied index\<close>

text \<open>
  Claim C8. For every replica and every operation (the RPC handlers, the senders and
  broadcasts, \<^verbatim>\<open>Start\<close>, \<^verbatim>\<open>Kill\<close>, \<^verbatim>\<open>GetState\<close> and \<^verbatim>\<open>run\<close>), the invariant
  \<open>lastApplied \<le> commitIndex\<close> is preserved, and neither \<^verbatim>\<open>committedIndex\<close> nor
  \<^verbatim>\<open>lastApplied\<close> decreases across the operation; the peer that \<^verbatim>\<open>Make\<close> creates
  satisfies the invariant.
\<close>

theorem commit_and_applied_index_preserved:
  "lastApplied rf <=s committedIndex rf \<Longrightarrow>
     lastApplied (perform rf op) <=s committedIndex (perform rf op) \<and>
     committedIndex rf <=s committedIndex (perform rf op) \<and>
     lastApplied rf <=s lastApplied (perform rf op) \<and>
     lastApplied (fst (Make ps m applyCh)) <=s committedIndex (fst (Make ps m applyCh))"
  by (simp add: perform_committedIndex perform_lastApplied Make_def)

theorem commit_and_applied_index_preserved_witness:
  "lastApplied example_peer <=s committedIndex example_peer \<and>
   lastApplied (perform example_peer (Op_run TimerFired :: unit operation))
     <=s committedIndex (perform example_peer (Op_run TimerFired :: unit operation)) \<and>
   committedIndex example_peer
     <=s committedIndex (perform example_peer (Op_run TimerFired :: unit operation)) \<and>
   lastApplied example_peer
     <=s lastApplied (perform example_peer (Op_run TimerFired :: unit operation)) \<and>
   lastApplied (fst (Make [ClientEnd 0] 0 (MadeChan 0)))
     <=s committedIndex (fst (Make [ClientEnd 0] 0 (MadeChan 0)))"
proof -
  have h: "lastApplied example_peer <=s committedIndex example_peer"
    by (simp add: example_peer_def)
  from h commit_and_applied_index_preserved [OF h] show ?thesis
    by blast
qed

section \<open>Redelivery of AppendEntries\<close>

text \<open>
  Claim C9. For every replica state and every AppendEntries request, handling the
  identical request a second time leaves the log equal to the log after the first
  handling: the second application performs no additional log mutation. (Neither
  application changes the log, whether the handler returns or blocks.)
\<close>

theorem AppendEntries_redelivery_keeps_log:
  "logs (final (AppendEntries (final (AppendEntries rf args reply taken)) args reply' taken')) =
     logs (final (AppendEntries rf args reply taken))"
  by (simp add: AppendEntries_final)

section \<open>The empty log of a new peer\<close>

text \<open>
  Claim C10. The peer that \<^verbatim>\<open>Make\<close> creates has an empty log. On it,
  \<^verbatim>\<open>RequestVote\<close> with a request term that is not less than the peer's term (which
  is 0) and \<^verbatim>\<open>broadcastRequestVote\<close> both read \<^verbatim>\<open>rf.logs[len(rf.logs)-1]\<close>, an index out of
  range, and panic: the two functions are not total on the initial state.
\<close>

theorem last_entry_lookup_panics_on_new_peer:
  "\<not> rva_term args <s currentTerm (fst (Make ps m applyCh)) \<Longrightarrow>
     logs (fst (Make ps m applyCh)) = [] \<and>
     RequestVote (fst (Make ps m applyCh)) args reply = Panics (fst (Make ps m applyCh)) \<and>
     broadcastRequestVote (fst (Make ps m applyCh)) = Panics (fst (Make ps m applyCh))"
  by (simp add: Make_def RequestVote_def broadcastRequestVote_def Lock_def Unlock_def)

theorem last_entry_lookup_panics_on_new_peer_witness:
  "\<not> rva_term \<lparr>rva_term = 1, rva_candidateId = 1, rva_lastLogIndex = 0, rva_lastLogTerm = 0\<rparr>
        <s currentTerm (fst (Make [ClientEnd 0, ClientEnd 1, ClientEnd 2] 0 (MadeChan 0))) \<and>
   logs (fst (Make [ClientEnd 0, ClientEnd 1, ClientEnd 2] 0 (MadeChan 0))) = [] \<and>
   RequestVote (fst (Make [ClientEnd 0, ClientEnd 1, ClientEnd 2] 0 (MadeChan 0)))
       \<lparr>rva_term = 1, rva_candidateId = 1, rva_lastLogIndex = 0, rva_lastLogTerm = 0\<rparr>
       \<lparr>rvr_term = 0, rvr_vote = False\<rparr> =
     Panics (fst (Make [ClientEnd 0, ClientEnd 1, ClientEnd 2] 0 (MadeChan 0))) \<and>
   broadcastRequestVote (fst (Make [ClientEnd 0, ClientEnd 1, ClientEnd 2] 0 (MadeChan 0))) =
     Panics (fst (Make [ClientEnd 0, ClientEnd 1, ClientEnd 2] 0 (MadeChan 0)))"
proof -
  have h: "\<not> rva_term \<lparr>rva_term = 1, rva_candidateId = 1, rva_lastLogIndex = 0, rva_lastLogTerm = 0\<rparr>
        <s currentTerm (fst (Make [ClientEnd 0, ClientEnd 1, ClientEnd 2] 0 (MadeChan 0)))"
    by (simp add: Make_def signed_compare)
  from h last_entry_lookup_panics_on_new_peer [OF h] show ?thesis
    by blast
qed

section \<open>Granting a vote\<close>

text \<open>
  Claim C1, as amended. For every replica handling a RequestVote with its mutex free,
  whose request term is not less than the replica's \<^verbatim>\<open>currentTerm\<close> and whose log is
  not empty, the handler returns, leaves the replica as it was, puts the replica's
  \<^verbatim>\<open>currentTerm\<close> in the reply, and grants the vote if and only if the index of the
  voter's last log entry is at most the candidate's \<^verbatim>\<open>lastLogIndex\<close>. Neither
  \<^verbatim>\<open>votedFor\<close> nor \<^verbatim>\<open>lastLogTerm\<close> nor the term of the voter's last entry is read.
\<close>

theorem RequestVote_grants_by_last_index:
  assumes "\<not> mu rf" and "\<not> rva_term args <s currentTerm rf" and "logs rf \<noteq> []"
  shows "RequestVote rf args reply =
    Returns rf []
      (reply\<lparr>rvr_term := currentTerm rf,
             rvr_vote := le_index (last (logs rf)) <=s rva_lastLogIndex args\<rparr>)"
  using assms
  by (simp add: RequestVote_def Lock_def Unlock_def unlock_free signed.not_less)

theorem RequestVote_grants_by_last_index_witness:
  "\<not> mu example_peer \<and>
   \<not> rva_term \<lparr>rva_term = 1, rva_candidateId = 1, rva_lastLogIndex = 1, rva_lastLogTerm = 1\<rparr>
        <s currentTerm example_peer \<and>
   logs example_peer \<noteq> [] \<and>
   RequestVote example_peer
       \<lparr>rva_term = 1, rva_candidateId = 1, rva_lastLogIndex = 1, rva_lastLogTerm = 1\<rparr>
       \<lparr>rvr_term = 0, rvr_vote = False\<rparr> =
     Returns example_peer [] \<lparr>rvr_term = 1, rvr_vote = True\<rparr>"
proof -
  have h: "\<not> mu example_peer"
    "\<not> rva_term \<lparr>rva_term = 1, rva_candidateId = 1, rva_lastLogIndex = 1, rva_lastLogTerm = 1\<rparr>
        <s currentTerm example_peer"
    "logs example_peer \<noteq> []"
    by (simp_all add: example_peer_def signed_compare)
  from RequestVote_grants_by_last_index [OF h, of "\<lparr>rvr_term = 0, rvr_vote = False\<rparr>"] h
  show ?thesis
    by (simp add: example_peer_def signed_compare)
qed

text \<open>
  The claim as stated fails in both directions. The example peer has voted for peer 2,
  and grants its vote to candidate 1. A voter whose last entry is (term 3, index 2)
  grants its vote to a candidate whose last entry is (term 2, index 5), which is behind.
  The same voter, with \<^verbatim>\<open>votedFor\<close> none, denies a candidate whose last entry is
  (term 4, index 1), which is ahead.
\<close>

theorem RequestVote_spec_rule_counterexample:
  "\<not> rva_term \<lparr>rva_term = 1, rva_candidateId = 1, rva_lastLogIndex = 1, rva_lastLogTerm = 1\<rparr>
        <s currentTerm example_peer \<and>
   RequestVote example_peer
       \<lparr>rva_term = 1, rva_candidateId = 1, rva_lastLogIndex = 1, rva_lastLogTerm = 1\<rparr>
       \<lparr>rvr_term = 0, rvr_vote = False\<rparr> =
     Returns example_peer [] \<lparr>rvr_term = 1, rvr_vote = True\<rparr> \<and>
   \<not> spec_vote_rule example_peer
       \<lparr>rva_term = 1, rva_candidateId = 1, rva_lastLogIndex = 1, rva_lastLogTerm = 1\<rparr> \<and>
   result_of (RequestVote
       (example_peer\<lparr>currentTerm := 3, votedFor := - 1,
          logs := [\<lparr>le_index = 1, le_term = 1, le_value = ''a''\<rparr>,
                   \<lparr>le_index = 2, le_term = 3, le_value = ''b''\<rparr>]\<rparr>)
       \<lparr>rva_term = 4, rva_candidateId = 1, rva_lastLogIndex = 5, rva_lastLogTerm = 2\<rparr>
       \<lparr>rvr_term = 0, rvr_vote = False\<rparr>) =
     Some \<lparr>rvr_term = 3, rvr_vote = True\<rparr> \<and>
   \<not> spec_vote_rule
       (example_peer\<lparr>currentTerm := 3, votedFor := - 1,
          logs := [\<lparr>le_index = 1, le_term = 1, le_value = ''a''\<rparr>,
                   \<lparr>le_index = 2, le_term = 3, le_value = ''b''\<rparr>]\<rparr>)
       \<lparr>rva_term = 4, rva_candidateId = 1, rva_lastLogIndex = 5, rva_lastLogTerm = 2\<rparr> \<and>
   result_of (RequestVote
       (example_peer\<lparr>currentTerm := 3, votedFor := - 1,
          logs := [\<lparr>le_index = 1, le_term = 1, le_value = ''a''\<rparr>,
                   \<lparr>le_index = 2, le_term = 3, le_value = ''b''\<rparr>]\<rparr>)
       \<lparr>rva_term = 4, rva_candidateId = 1, rva_lastLogIndex = 1, rva_lastLogTerm = 4\<rparr>
       \<lparr>rvr_term = 0, rvr_vote = False\<rparr>) =
     Some \<lparr>rvr_term = 3, rvr_vote = False\<rparr> \<and>
   spec_vote_rule
       (example_peer\<lparr>currentTerm := 3, votedFor := - 1,
          logs := [\<lparr>le_index = 1, le_term = 1, le_value = ''a''\<rparr>,
                   \<lparr>le_index = 2, le_term = 3, le_value = ''b''\<rparr>]\<rparr>)
       \<lparr>rva_term = 4, rva_candidateId = 1, rva_lastLogIndex = 1, rva_lastLogTerm = 4\<rparr>"
  by (simp add: example_peer_def RequestVote_def Lock_def Unlock_def spec_vote_rule_def
      signed_compare)

section \<open>From candidate to leader\<close>

text \<open>
  Claim C2. A transition from Candidate to Leader never occurs unless the candidate has
  received granted votes from a strict majority; a single vote reply, or a reply with
  the vote denied, is never sufficient. In this file the transition never occurs at
  all. The only assignment \<^verbatim>\<open>rf.state = LEADER\<close> is line 329, in the \<^verbatim>\<open>select\<close> of
  the candidate's arm of \<^verbatim>\<open>run\<close>; \<^verbatim>\<open>run\<close> locks the mutex at line 310 and locks it
  again at line 317, where it stops, holding the mutex; and the mutex then stays held
  whatever operations follow, so \<^verbatim>\<open>run\<close> is never resumed. Hence a candidate is not a
  leader after any sequence of operations, a vote reply arriving on \<^verbatim>\<open>winElecCh\<close>
  (the event \<open>Recv_winElecCh b\<close>, granted or denied) included.
\<close>

theorem candidate_never_becomes_leader:
  "state rf = CANDIDATE \<Longrightarrow>
     state (foldl perform rf ops) \<noteq> LEADER \<and>
     run rf ev = Blocks (if mu rf then rf else rf\<lparr>mu := True\<rparr>) \<and>
     mu (foldl perform (final (run rf ev)) ops')"
  by (simp add: foldl_perform_CANDIDATE roles_distinct run_of_CANDIDATE foldl_perform_mu)

theorem candidate_never_becomes_leader_witness:
  "state (example_peer\<lparr>state := CANDIDATE\<rparr>) = CANDIDATE \<and>
   state (foldl perform (example_peer\<lparr>state := CANDIDATE\<rparr>)
      [Op_run (Recv_winElecCh True), Op_run (Recv_winElecCh False), Op_Start ''x'']) \<noteq> LEADER \<and>
   run (example_peer\<lparr>state := CANDIDATE\<rparr>) (Recv_winElecCh True) =
     Blocks (example_peer\<lparr>state := CANDIDATE, mu := True\<rparr>) \<and>
   mu (foldl perform (final (run (example_peer\<lparr>state := CANDIDATE\<rparr>) (Recv_winElecCh True)))
      [Op_RequestVote \<lparr>rva_term = 1, rva_candidateId = 1, rva_lastLogIndex = 1, rva_lastLogTerm = 1\<rparr>
         \<lparr>rvr_term = 0, rvr_vote = False\<rparr>, Op_Start ''x''])"
proof -
  have h: "state (example_peer\<lparr>state := CANDIDATE\<rparr>) = CANDIDATE"
    by simp
  have r: "(if mu (example_peer\<lparr>state := CANDIDATE\<rparr>) then example_peer\<lparr>state := CANDIDATE\<rparr>
            else example_peer\<lparr>state := CANDIDATE\<rparr>\<lparr>mu := True\<rparr>) =
           example_peer\<lparr>state := CANDIDATE, mu := True\<rparr>"
    by (simp add: example_peer_def)
  from h candidate_never_becomes_leader [OF h, unfolded r] show ?thesis
    by blast
qed

text \<open>
  What keeps a candidate from leadership is the second \<^verbatim>\<open>Lock\<close> alone. The arm
  itself, entered with the mutex free, makes the peer leader on any value received from
  \<^verbatim>\<open>winElecCh\<close>: the \<^verbatim>\<open>select\<close> drops the value, so one reply is enough and a denied
  vote counts like a granted one; \<^verbatim>\<open>voteCount\<close> is reset and never incremented.
\<close>

theorem run_CANDIDATE_promotes_on_any_reply:
  "\<not> mu rf \<Longrightarrow> winElecCh rf \<noteq> NilChan \<Longrightarrow>
     run_CANDIDATE rf (Recv_winElecCh b) =
       Returns
         (rf\<lparr>currentTerm := currentTerm rf + 1, state := LEADER, voteCount := 0, votedFor := - 1\<rparr>)
         [Go_broadcastRequestVote] ()"
  by (simp add: run_CANDIDATE_def Lock_def Unlock_def select_CANDIDATE_def unlock_free)

theorem run_CANDIDATE_promotes_on_any_reply_witness:
  "\<not> mu (example_peer\<lparr>state := CANDIDATE\<rparr>) \<and>
   winElecCh (example_peer\<lparr>state := CANDIDATE\<rparr>) \<noteq> NilChan \<and>
   run_CANDIDATE (example_peer\<lparr>state := CANDIDATE\<rparr>) (Recv_winElecCh False) =
     Returns (example_peer\<lparr>currentTerm := 2, state := LEADER, voteCount := 0, votedFor := - 1\<rparr>)
       [Go_broadcastRequestVote] ()"
proof -
  have h: "\<not> mu (example_peer\<lparr>state := CANDIDATE\<rparr>)"
    "winElecCh (example_peer\<lparr>state := CANDIDATE\<rparr>) \<noteq> NilChan"
    by (simp_all add: example_peer_def)
  from h run_CANDIDATE_promotes_on_any_reply [OF h, of False] show ?thesis
    by (simp add: example_peer_def)
qed

section \<open>A request with a greater term\<close>

lemma RequestVote_reply_term:
  "result_of (RequestVote rf rv reply) = Some r \<Longrightarrow> rvr_term r = currentTerm rf"
  by (auto simp: RequestVote_def Lock_def split: if_splits)

text \<open>
  Claim C3, as amended. For every inbound RPC (RequestVote or AppendEntries) carrying a
  term strictly greater than the receiving replica's \<^verbatim>\<open>currentTerm\<close>, the handler
  leaves the replica's role, its \<^verbatim>\<open>currentTerm\<close> and its \<^verbatim>\<open>votedFor\<close> as they were:
  it does not step down, does not adopt the carried term and does not reset
  \<^verbatim>\<open>votedFor\<close>. A reply of RequestVote carries the old \<^verbatim>\<open>currentTerm\<close>.
\<close>

theorem greater_term_changes_nothing:
  "(currentTerm rf <s rva_term rv \<longrightarrow>
      state (final (RequestVote rf rv reply)) = state rf \<and>
      currentTerm (final (RequestVote rf rv reply)) = currentTerm rf \<and>
      votedFor (final (RequestVote rf rv reply)) = votedFor rf \<and>
      (case result_of (RequestVote rf rv reply) of
         None \<Rightarrow> True
       | Some r \<Rightarrow> rvr_term r = currentTerm rf)) \<and>
   (currentTerm rf <s aea_term ae \<longrightarrow>
      state (final (AppendEntries rf ae areply taken)) = state rf \<and>
      currentTerm (final (AppendEntries rf ae areply taken)) = currentTerm rf \<and>
      votedFor (final (AppendEntries rf ae areply taken)) = votedFor rf)"
  by (auto simp: RequestVote_final AppendEntries_final RequestVote_reply_term
      split: option.splits)

theorem greater_term_changes_nothing_witness:
  "currentTerm (example_peer\<lparr>state := LEADER\<rparr>)
     <s rva_term \<lparr>rva_term = 2, rva_candidateId = 1, rva_lastLogIndex = 1, rva_lastLogTerm = 1\<rparr> \<and>
   state (final (RequestVote (example_peer\<lparr>state := LEADER\<rparr>)
      \<lparr>rva_term = 2, rva_candidateId = 1, rva_lastLogIndex = 1, rva_lastLogTerm = 1\<rparr>
      \<lparr>rvr_term = 0, rvr_vote = False\<rparr>)) = LEADER \<and>
   currentTerm (final (RequestVote (example_peer\<lparr>state := LEADER\<rparr>)
      \<lparr>rva_term = 2, rva_candidateId = 1, rva_lastLogIndex = 1, rva_lastLogTerm = 1\<rparr>
      \<lparr>rvr_term = 0, rvr_vote = False\<rparr>)) = 1 \<and>
   votedFor (final (RequestVote (example_peer\<lparr>state := LEADER\<rparr>)
      \<lparr>rva_term = 2, rva_candidateId = 1, rva_lastLogIndex = 1, rva_lastLogTerm = 1\<rparr>
      \<lparr>rvr_term = 0, rvr_vote = False\<rparr>)) = 2 \<and>
   currentTerm (example_peer\<lparr>state := LEADER\<rparr>)
     <s aea_term \<lparr>aea_term = 2, aea_leaderId = 1, aea_prevLogIndex = 1, aea_prevLogTerm = 1,
                  aea_entries = [], aea_leaderCommit = 0\<rparr> \<and>
   state (final (AppendEntries (example_peer\<lparr>state := LEADER\<rparr>)
      \<lparr>aea_term = 2, aea_leaderId = 1, aea_prevLogIndex = 1, aea_prevLogTerm = 1,
        aea_entries = [], aea_leaderCommit = 0\<rparr>
      \<lparr>aer_term = 0, aer_success = False\<rparr> True)) = LEADER \<and>
   currentTerm (final (AppendEntries (example_peer\<lparr>state := LEADER\<rparr>)
      \<lparr>aea_term = 2, aea_leaderId = 1, aea_prevLogIndex = 1, aea_prevLogTerm = 1,
        aea_entries = [], aea_leaderCommit = 0\<rparr>
      \<lparr>aer_term = 0, aer_success = False\<rparr> True)) = 1 \<and>
   votedFor (final (AppendEntries (example_peer\<lparr>state := LEADER\<rparr>)
      \<lparr>aea_term = 2, aea_leaderId = 1, aea_prevLogIndex = 1, aea_prevLogTerm = 1,
        aea_entries = [], aea_leaderCommit = 0\<rparr>
      \<lparr>aer_term = 0, aer_success = False\<rparr> True)) = 2"
  using greater_term_changes_nothing [of "example_peer\<lparr>state := LEADER\<rparr>"
      "\<lparr>rva_term = 2, rva_candidateId = 1, rva_lastLogIndex = 1, rva_lastLogTerm = 1\<rparr>"
      "\<lparr>rvr_term = 0, rvr_vote = False\<rparr>"
      "\<lparr>aea_term = 2, aea_leaderId = 1, aea_prevLogIndex = 1, aea_prevLogTerm = 1,
        aea_entries = [], aea_leaderCommit = 0\<rparr>"
      "\<lparr>aer_term = 0, aer_success = False\<rparr>" True]
  by (simp add: example_peer_def signed_compare)

text \<open>
  The claim as stated fails: a leader in term 1 that has voted for peer 2 handles a
  RequestVote, and an AppendEntries, of term 2, and is still a leader in term 1 that has
  voted for peer 2.
\<close>

theorem greater_term_step_down_counterexample:
  "currentTerm (example_peer\<lparr>state := LEADER\<rparr>)
     <s rva_term \<lparr>rva_term = 2, rva_candidateId = 1, rva_lastLogIndex = 1, rva_lastLogTerm = 1\<rparr> \<and>
   RequestVote (example_peer\<lparr>state := LEADER\<rparr>)
      \<lparr>rva_term = 2, rva_candidateId = 1, rva_lastLogIndex = 1, rva_lastLogTerm = 1\<rparr>
      \<lparr>rvr_term = 0, rvr_vote = False\<rparr> =
     Returns (example_peer\<lparr>state := LEADER\<rparr>) [] \<lparr>rvr_term = 1, rvr_vote = True\<rparr> \<and>
   currentTerm (example_peer\<lparr>state := LEADER\<rparr>)
     <s aea_term \<lparr>aea_term = 2, aea_leaderId = 1, aea_prevLogIndex = 1, aea_prevLogTerm = 1,
                  aea_entries = [], aea_leaderCommit = 0\<rparr> \<and>
   AppendEntries (example_peer\<lparr>state := LEADER\<rparr>)
      \<lparr>aea_term = 2, aea_leaderId = 1, aea_prevLogIndex = 1, aea_prevLogTerm = 1,
        aea_entries = [], aea_leaderCommit = 0\<rparr>
      \<lparr>aer_term = 0, aer_success = False\<rparr> True =
     Returns (example_peer\<lparr>state := LEADER\<rparr>) [Send_heartBeatCh True]
       \<lparr>aer_term = 0, aer_success = False\<rparr> \<and>
   state (example_peer\<lparr>state := LEADER\<rparr>) \<noteq> FOLLOWER \<and>
   currentTerm (example_peer\<lparr>state := LEADER\<rparr>) \<noteq> 2 \<and>
   votedFor (example_peer\<lparr>state := LEADER\<rparr>) \<noteq> - 1"
  by (simp add: example_peer_def RequestVote_def AppendEntries_def Lock_def Unlock_def
      roles_distinct signed_compare FOLLOWER_def LEADER_def)

section \<open>A request with a smaller term\<close>




section \<open>Submitting a command\<close>

text \<open>
  Claim C5, evaluated. \<^verbatim>\<open>Start\<close> returns index \<open>- 1\<close>, term \<open>- 1\<close> and
  \<^verbatim>\<open>isLeader = true\<close> on a follower as on a leader, and appends nothing to the log of
  either.
\<close>

theorem Start_on_follower_and_leader:
  "state example_peer = FOLLOWER \<and>
   Start example_peer ''x'' = Returns example_peer [] (- 1, - 1, True) \<and>
   Start (example_peer\<lparr>state := LEADER\<rparr>) ''x'' =
     Returns (example_peer\<lparr>state := LEADER\<rparr>) [] (- 1, - 1, True)"
  by (simp add: Start_def example_peer_def)

section \<open>Handling AppendEntries\<close>

text \<open>
  Claim C6, as amended. For every replica handling an AppendEntries, whatever the
  request's term, \<^verbatim>\<open>prevLogIndex\<close>, \<^verbatim>\<open>prevLogTerm\<close>, entries and \<^verbatim>\<open>leaderCommit\<close>: the
  handler truncates no entry, appends no entry and does not advance the commit index,
  so the log and \<^verbatim>\<open>committedIndex\<close> are as they were; when it returns, the replica is
  unchanged and its one effect is the value \<^verbatim>\<open>true\<close> sent on \<^verbatim>\<open>heartBeatCh\<close>; it
  blocks when \<^verbatim>\<open>heartBeatCh\<close> is nil or nothing takes the value. What the reply says
  is left open: line 142 documents \<^verbatim>\<open>success\<close> as true when the follower's entry
  matches, which the handler does not implement.
\<close>

theorem AppendEntries_keeps_log_and_commit_index:
  "logs (final (AppendEntries rf args reply taken)) = logs rf \<and>
   committedIndex (final (AppendEntries rf args reply taken)) = committedIndex rf \<and>
   (if heartBeatCh rf \<noteq> NilChan \<and> taken
    then \<exists>r. AppendEntries rf args reply taken = Returns rf [Send_heartBeatCh True] r
    else AppendEntries rf args reply taken = Blocks rf)"
  by (simp add: AppendEntries_final AppendEntries_result)

text \<open>
  The claim as stated fails: the example peer's log holds the entry (index 1, term 1);
  a request of the peer's term with \<^verbatim>\<open>prevLogIndex\<close> 1, \<^verbatim>\<open>prevLogTerm\<close> 1, one new
  entry and \<^verbatim>\<open>leaderCommit\<close> 2 passes the consistency check of the specification,
  yet the log still holds one entry and \<^verbatim>\<open>committedIndex\<close> is still 0, where the
  claim has two entries and a commit index of 2. The reply of that call says
  \<^verbatim>\<open>success = false\<close> although the entry matches, against the comment of line 142.
\<close>

theorem AppendEntries_consistency_counterexample:
  "\<not> aea_term \<lparr>aea_term = 1, aea_leaderId = 1, aea_prevLogIndex = 1, aea_prevLogTerm = 1,
               aea_entries = [\<lparr>le_index = 2, le_term = 1, le_value = ''b''\<rparr>],
               aea_leaderCommit = 2\<rparr>
       <s currentTerm example_peer \<and>
   log_contains (logs example_peer) 1 1 \<and>
   AppendEntries example_peer
      \<lparr>aea_term = 1, aea_leaderId = 1, aea_prevLogIndex = 1, aea_prevLogTerm = 1,
        aea_entries = [\<lparr>le_index = 2, le_term = 1, le_value = ''b''\<rparr>], aea_leaderCommit = 2\<rparr>
      \<lparr>aer_term = 0, aer_success = False\<rparr> True =
     Returns example_peer [Send_heartBeatCh True] \<lparr>aer_term = 0, aer_success = False\<rparr> \<and>
   logs example_peer = [\<lparr>le_index = 1, le_term = 1, le_value = ''a''\<rparr>] \<and>
   committedIndex example_peer = 0"
  by (simp add: example_peer_def AppendEntries_def log_contains_def signed_compare)

section \<open>The election timeout\<close>

text \<open>
  Claim C7, as amended. When the election timer fires in \<^verbatim>\<open>run\<close> on a Follower whose
  mutex is free, the replica becomes Candidate and \<^verbatim>\<open>run\<close> returns: that pass leaves
  \<^verbatim>\<open>currentTerm\<close> and \<^verbatim>\<open>votedFor\<close> as they were and broadcasts nothing.
  \<^verbatim>\<open>broadcastRequestVote\<close>, on a replica with a free mutex and a log that is not
  empty, leaves the replica as it was and starts a \<^verbatim>\<open>sendRequestVote\<close> to every other
  replica, with arguments that carry the replica's \<^verbatim>\<open>currentTerm\<close> as the term and
  its own index as the candidate.
\<close>

theorem follower_timeout_and_vote_broadcast:
  "(\<not> mu rf \<and> state rf = FOLLOWER \<longrightarrow>
      (\<exists>rf'. run rf ev = Returns rf' [] () \<and> state rf' = CANDIDATE \<and>
         currentTerm rf' = currentTerm rf \<and> votedFor rf' = votedFor rf)) \<and>
   (\<not> mu rf \<and> logs rf \<noteq> [] \<and> i < length (peers rf) \<and> of_nat i \<noteq> me rf \<longrightarrow>
      (\<exists>arg es. broadcastRequestVote rf = Returns rf es () \<and>
         Go_sendRequestVote (of_nat i) arg \<in> set es \<and>
         rva_term arg = currentTerm rf \<and> rva_candidateId arg = me rf))"
proof (intro conjI impI)
  assume "\<not> mu rf \<and> state rf = FOLLOWER"
  then show "\<exists>rf'. run rf ev = Returns rf' [] () \<and> state rf' = CANDIDATE \<and>
      currentTerm rf' = currentTerm rf \<and> votedFor rf' = votedFor rf"
    by (simp add: run_def Lock_def roles_distinct)
next
  assume a: "\<not> mu rf \<and> logs rf \<noteq> [] \<and> i < length (peers rf) \<and> of_nat i \<noteq> me rf"
  let ?arg = "\<lparr>rva_term = currentTerm rf, rva_candidateId = me rf,
               rva_lastLogIndex = le_term (last (logs rf)), rva_lastLogTerm = 0\<rparr>"
  let ?es = "map (\<lambda>index. Go_sendRequestVote (of_nat index) ?arg) [0..<length (peers rf)]"
  from a have "broadcastRequestVote rf = Returns rf ?es ()"
    by (simp add: broadcastRequestVote_def Lock_def Unlock_def unlock_free Let_def)
  moreover from a have "Go_sendRequestVote (of_nat i) ?arg \<in> set ?es"
    by simp
  ultimately show "\<exists>arg es. broadcastRequestVote rf = Returns rf es () \<and>
      Go_sendRequestVote (of_nat i) arg \<in> set es \<and>
      rva_term arg = currentTerm rf \<and> rva_candidateId arg = me rf"
    by (intro exI [of _ ?arg] exI [of _ ?es]) simp
qed

theorem follower_timeout_and_vote_broadcast_witness:
  "\<not> mu example_peer \<and> state example_peer = FOLLOWER \<and>
   (\<exists>rf'. run example_peer TimerFired = Returns rf' [] () \<and> state rf' = CANDIDATE \<and>
      currentTerm rf' = currentTerm example_peer \<and> votedFor rf' = votedFor example_peer) \<and>
   logs example_peer \<noteq> [] \<and> 1 < length (peers example_peer) \<and>
   of_nat 1 \<noteq> me example_peer \<and>
   (\<exists>arg es. broadcastRequestVote example_peer = Returns example_peer es () \<and>
      Go_sendRequestVote (of_nat 1) arg \<in> set es \<and>
      rva_term arg = currentTerm example_peer \<and> rva_candidateId arg = me example_peer)"
proof -
  have h: "\<not> mu example_peer \<and> state example_peer = FOLLOWER"
    "\<not> mu example_peer \<and> logs example_peer \<noteq> [] \<and> 1 < length (peers example_peer) \<and>
     of_nat 1 \<noteq> me example_peer"
    by (simp_all add: example_peer_def)
  from h follower_timeout_and_vote_broadcast [of example_peer TimerFired 1] show ?thesis
    by blast
qed

text \<open>
  The claim as stated fails. When the timer fires on the example peer, a follower in
  term 1 that is peer 0 and has \<^verbatim>\<open>votedFor\<close> 2, \<^verbatim>\<open>run\<close> returns a candidate still in
  term 1 with \<^verbatim>\<open>votedFor\<close> 2 and no effect at all. On a candidate, \<^verbatim>\<open>run\<close> blocks at
  line 317 before it increments the term. \<^verbatim>\<open>broadcastRequestVote\<close>, on peer 0 of
  three in term 4 whose last entry is (index 3, term 2), starts a \<^verbatim>\<open>sendRequestVote\<close>
  to peers 0, 1 and 2, itself included, with \<^verbatim>\<open>lastLogIndex\<close> 2 (the entry's term)
  and \<^verbatim>\<open>lastLogTerm\<close> 0.
\<close>

theorem election_timeout_counterexample:
  "run example_peer TimerFired =
     Returns (example_peer\<lparr>mu := True, state := CANDIDATE\<rparr>) [] () \<and>
   currentTerm (example_peer\<lparr>mu := True, state := CANDIDATE\<rparr>) \<noteq> currentTerm example_peer + 1 \<and>
   votedFor (example_peer\<lparr>mu := True, state := CANDIDATE\<rparr>) \<noteq> me example_peer \<and>
   run (example_peer\<lparr>state := CANDIDATE\<rparr>) TimerFired =
     Blocks (example_peer\<lparr>mu := True, state := CANDIDATE\<rparr>) \<and>
   broadcastRequestVote
      (example_peer\<lparr>currentTerm := 4,
         logs := [\<lparr>le_index = 3, le_term = 2, le_value = ''a''\<rparr>]\<rparr>) =
     Returns
      (example_peer\<lparr>currentTerm := 4,
         logs := [\<lparr>le_index = 3, le_term = 2, le_value = ''a''\<rparr>]\<rparr>)
      [Go_sendRequestVote 0
         \<lparr>rva_term = 4, rva_candidateId = 0, rva_lastLogIndex = 2, rva_lastLogTerm = 0\<rparr>,
       Go_sendRequestVote 1
         \<lparr>rva_term = 4, rva_candidateId = 0, rva_lastLogIndex = 2, rva_lastLogTerm = 0\<rparr>,
       Go_sendRequestVote 2
         \<lparr>rva_term = 4, rva_candidateId = 0, rva_lastLogIndex = 2, rva_lastLogTerm = 0\<rparr>]
      ()"
  by (simp add: example_peer_def run_def run_CANDIDATE_def broadcastRequestVote_def Lock_def
      Unlock_def FOLLOWER_def CANDIDATE_def LEADER_def upt_rec Let_def)

end
